theory Spec2Isabelle
  imports Main
begin

section \<open>The capture manager of IWXMVM (core/src/Components/CaptureManager.cpp)\<close>

text \<open>
  The capture manager owns Direct3D surfaces and encoder pipes, and talks to the
  renderer, the timeline, the file system and the log. The model keeps the members of
  \<^verbatim>\<open>CaptureManager\<close> in a record, passes it through every member function, and records
  each call to a collaborator as an event of a trace kept beside the members. What a
  collaborator answers (a Direct3D result, a pipe handle, the timeline tick) is read from
  a record of answers handed to the function.
\<close>

subsection \<open>Data\<close>

text \<open>
  A pointer is \<open>None\<close> when null and \<open>Some h\<close> otherwise; \<open>h\<close> names the object pointed to
  (a \<^verbatim>\<open>FILE\<close>, a surface, a shader).
\<close>

type_synonym handle = nat

type_synonym pointer = "handle option"

text \<open>
  The enumerations are declared in CaptureManager.hpp; the enumerators are the ones the
  switches of the source name. A value of the underlying type that is none of them
  reaches the \<^verbatim>\<open>default\<close> branches and is kept as \<open>OtherOutputFormat\<close> and
  \<open>OtherVideoCodec\<close>.
\<close>

datatype OutputFormat = Video | CameraData | ImageSequence | OtherOutputFormat int

datatype VideoCodec =
  Prores4444XQ | Prores4444 | Prores422HQ | Prores422 | Prores422LT | OtherVideoCodec int

record Resolution =
  width :: int
  height :: int

text \<open>
  Modelled from the spec: the type of \<^verbatim>\<open>CapturePass::elements\<close> is declared outside this
  file; the spec calls it a set of element identifiers. \<open>pass_pipe\<close> is \<^verbatim>\<open>CapturePass::pipe\<close>;
  the name \<open>pipe\<close> is kept for the member of \<^verbatim>\<open>CaptureManager\<close>.
\<close>

type_synonym ElementId = nat

record CapturePass =
  elements :: "ElementId set"
  pass_pipe :: pointer

record CaptureSettings =
  startTick :: int
  endTick :: int
  outputFormat :: OutputFormat
  videoCodec :: "VideoCodec option"
  resolution :: Resolution
  framerate :: int
  passes :: "CapturePass list"

datatype log_level = LOG_DEBUG | LOG_INFO | LOG_ERROR

text \<open>
  The calls the capture manager makes to its collaborators. A log event keeps the level
  and the format string of the call; \<open>Fwrite size count stream\<close> keeps the arguments of
  \<^verbatim>\<open>std::fwrite\<close> after the buffer.
\<close>

datatype event =
    Log log_level string
  | CreateDirectories
  | SetTickDelta int bool
  | Popen string
  | Fflush handle
  | Fclose handle
  | Fwrite int nat handle
  | Release handle
  | DrawShaderForPassIndex nat
  | SetVisibleElements "ElementId set"
  | ResetVisibleElements

text \<open>
  What ends a function other than a return: \<^verbatim>\<open>std::optional::value\<close> on an empty
  optional throws, a call through a null pointer and an integer division by zero stop
  the process. The exception passes through \<^verbatim>\<open>StartCapture\<close>, which has no handler, and
  leaves the members as they are at the throw: \<^verbatim>\<open>StartCapture\<close> and the parts of it answer
  \<open>Inl (fault, session)\<close> then.
\<close>

datatype fault = BadOptionalAccess | NullPointer | DivisionByZero

record D3DSURFACE_DESC =
  Width :: nat
  Height :: nat

text \<open>
  The answers of the collaborators. A Direct3D call that creates or queries an object
  answers \<open>None\<close> when it fails, and then the member it would have set stays as it was,
  and the object otherwise; a call that only reports success answers a truth value. \<open>popen i\<close> is the answer of the \<open>i\<close>-th call of
  \<^verbatim>\<open>_popen\<close> of one \<^verbatim>\<open>StartCapture\<close>, \<open>directoryEntries\<close> lists the names that exist in
  the output directory, and \<open>GetShortPathName\<close> is the short path of the encoder.
\<close>

record env =
  outputDirectory :: string
  outputDirectoryExists :: bool
  directoryEntries :: "string list"
  GetShortPathName :: string
  ffmpegExists :: bool
  popen :: "nat \<Rightarrow> pointer"
  GetTimelineTick :: int
  IsRewinding :: bool
  GetBackBuffer :: pointer
  GetDesc :: "D3DSURFACE_DESC option"
  CreateOffscreenPlainSurface :: pointer
  CreateRenderTarget :: pointer
  StretchRect :: bool
  GetRenderTargetData :: bool
  LockRect :: bool
  UnlockRect :: bool

text \<open>
  Modelled from the spec: the members of \<^verbatim>\<open>CaptureManager\<close> are declared in
  CaptureManager.hpp, which is not among the sources; their names are those the source
  file uses and their types those the spec gives. \<open>capturedFrameCount\<close> is set to 0 by
  \<^verbatim>\<open>StartCapture\<close> and only ever incremented, once a frame, so it is a natural number here:
  it stays far below the bound of its 64-bit type and of \<^verbatim>\<open>std::size_t\<close>, and the
  conversions between the two in \<^verbatim>\<open>CaptureFrame\<close>, \<^verbatim>\<open>PrepareFrame\<close> and \<^verbatim>\<open>OnGameFrame\<close> leave
  it as it is. Ticks and the frame rate are integers; the one product the source
  computes in \<^verbatim>\<open>std::int32_t\<close>, the size of a frame, wraps around in the model as on the
  machine. \<open>trace\<close> is not a member: it lists the calls made to the collaborators so far.
\<close>

record session =
  captureSettings :: CaptureSettings
  isCapturing :: bool
  capturedFrameCount :: nat
  framePrepared :: bool
  ffmpegNotFound :: bool
  screenDimensions :: Resolution
  pipe :: pointer
  backBuffer :: pointer
  tempSurface :: pointer
  downsampledRenderTarget :: pointer
  depthSurface :: pointer
  depthShader :: pointer
  trace :: "event list"

subsection \<open>Formatting\<close>

text \<open>\<^verbatim>\<open>std::format("{}", n)\<close> of an integer: its decimal digits, after a minus sign when negative.\<close>

definition digit :: "nat \<Rightarrow> char" where
  "digit d = ''0123456789'' ! d"

function format_nat :: "nat \<Rightarrow> string" where
  "format_nat n = (if n < 10 then [digit n] else format_nat (n div 10) @ [digit (n mod 10)])"
  by pat_completeness auto

definition format_int :: "int \<Rightarrow> string" where
  "format_int k = (if k < 0 then CHR ''-'' # format_nat (nat (- k)) else format_nat (nat k))"

definition dquote :: char where
  "dquote = CHR 0x22"

definition backslash :: char where
  "backslash = CHR 0x5C"

subsection \<open>The encoder command\<close>

definition pass_filename :: "nat \<Rightarrow> string" where
  "pass_filename passIndex = ''Pass '' @ format_nat passIndex @ ''.mov''"

definition pass_filename_n :: "nat \<Rightarrow> nat \<Rightarrow> string" where
  "pass_filename_n passIndex i =
     ''Pass '' @ format_nat passIndex @ ''('' @ format_nat i @ '').mov''"

text \<open>
  The loop of \<^verbatim>\<open>GetFFmpegCommand\<close> that looks for a file name not yet taken:
  \<^verbatim>\<open>while (exists(outputDirectory / filename)) filename = format("Pass {}({}).mov", passIndex, ++i)\<close>.
  The directory has finitely many entries, so the loop ends (see the termination proof
  below).
\<close>

function filename_loop :: "string list \<Rightarrow> nat \<Rightarrow> string \<Rightarrow> nat \<Rightarrow> string" where
  "filename_loop entries passIndex filename i =
     (if filename \<in> set entries
      then filename_loop entries passIndex (pass_filename_n passIndex (i + 1)) (i + 1)
      else filename)"
  by pat_completeness auto

text \<open>
  The measure of the termination proof: the names \<open>Pass k(n).mov\<close> of the directory ahead
  of the counter, and the name in hand when it is taken. Every turn of the loop leaves
  one fewer.
\<close>

definition names_ahead :: "string list \<Rightarrow> nat \<Rightarrow> string \<Rightarrow> nat \<Rightarrow> nat" where
  "names_ahead entries passIndex filename i =
     card {n. i < n \<and> pass_filename_n passIndex n \<in> set entries}
       + (if filename \<in> set entries then 1 else 0)"

text \<open>The inner switch: profile, pixel format, and what it logs.\<close>

definition video_profile :: "VideoCodec \<Rightarrow> int \<times> string \<times> event list" where
  "video_profile codec =
     (case codec of
        Prores4444XQ \<Rightarrow> (5, ''yuv444p10le'', [])
      | Prores4444 \<Rightarrow> (4, ''yuv444p10le'', [])
      | Prores422HQ \<Rightarrow> (3, ''yuv422p10le'', [])
      | Prores422 \<Rightarrow> (2, ''yuv422p10le'', [])
      | Prores422LT \<Rightarrow> (1, ''yuv422p10le'', [])
      | OtherVideoCodec v \<Rightarrow>
          (4, ''yuv444p10le'', [Log LOG_ERROR ''Unsupported video codec. Choosing default ({})'']))"

definition image_sequence_command ::
  "string \<Rightarrow> Resolution \<Rightarrow> int \<Rightarrow> Resolution \<Rightarrow> string \<Rightarrow> nat \<Rightarrow> string" where
  "image_sequence_command shortPath dims rate res dir passIndex =
     shortPath @ '' -f rawvideo -pix_fmt bgra -s '' @ format_int (width dims) @ ''x''
       @ format_int (height dims) @ '' -r '' @ format_int rate @ '' -i - -q:v 0 ''
       @ ''-vf scale='' @ format_int (width res) @ '':'' @ format_int (height res)
       @ '' -y '' @ [dquote] @ dir @ [backslash] @ ''output_'' @ format_nat passIndex
       @ ''_%06d.tga'' @ [dquote] @ '' 2>&1''"

definition video_command ::
  "string \<Rightarrow> Resolution \<Rightarrow> int \<Rightarrow> int \<Rightarrow> string \<Rightarrow> Resolution \<Rightarrow> string \<Rightarrow> string \<Rightarrow> string" where
  "video_command shortPath dims rate profile pixelFormat res dir filename =
     shortPath @ '' -f rawvideo -pix_fmt bgra -s '' @ format_int (width dims) @ ''x''
       @ format_int (height dims) @ '' -r '' @ format_int rate
       @ '' -i - -c:v prores -profile:v '' @ format_int profile @ '' -q:v 1 ''
       @ ''-pix_fmt '' @ pixelFormat @ '' -vf scale='' @ format_int (width res) @ '':''
       @ format_int (height res) @ '' -y '' @ [dquote] @ dir @ [backslash] @ filename
       @ [dquote] @ '' 2>&1''"

text \<open>
  \<^verbatim>\<open>GetFFmpegCommand\<close> answers the command and the log lines it wrote, or the exception of
  \<^verbatim>\<open>captureSettings.videoCodec.value()\<close>.
\<close>

definition GetFFmpegCommand ::
  "env \<Rightarrow> CaptureSettings \<Rightarrow> string \<Rightarrow> Resolution \<Rightarrow> nat \<Rightarrow> fault + (event list \<times> string)" where
  "GetFFmpegCommand e settings dir dims passIndex =
     (case outputFormat settings of
        ImageSequence \<Rightarrow>
          Inr ([], image_sequence_command (GetShortPathName e) dims (framerate settings)
                     (resolution settings) dir passIndex)
      | Video \<Rightarrow>
          (case videoCodec settings of
             None \<Rightarrow> Inl BadOptionalAccess
           | Some codec \<Rightarrow>
               (case video_profile codec of
                  (profile, pixelFormat, logged) \<Rightarrow>
                    Inr (logged,
                         video_command (GetShortPathName e) dims (framerate settings) profile
                           pixelFormat (resolution settings) dir
                           (filename_loop (directoryEntries e) passIndex
                              (pass_filename passIndex) 0))))
      | _ \<Rightarrow> Inr ([Log LOG_ERROR ''Output format not supported''], []))"

subsection \<open>The session\<close>

definition emit :: "event list \<Rightarrow> session \<Rightarrow> session" where
  "emit es s = s\<lparr>trace := trace s @ es\<rparr>"

text \<open>
  Modelled from the spec: \<^verbatim>\<open>MultiPassEnabled\<close> is declared in CaptureManager.hpp, which is
  not among the sources; the spec has the pass list empty for single-stream capture and
  non-empty for multi-pass capture.
\<close>

definition MultiPassEnabled :: "session \<Rightarrow> bool" where
  "MultiPassEnabled s = (passes (captureSettings s) \<noteq> [])"

text \<open>
  \<^verbatim>\<open>static_cast<std::int32_t>\<close> and the arithmetic of \<^verbatim>\<open>std::int32_t\<close>: the value modulo
  \<open>2^32\<close>, read as two's complement.
\<close>

definition int32 :: "int \<Rightarrow> int" where
  "int32 k = signed_take_bit 31 k"

text \<open>The quotient of C++: rounded towards zero, and no quotient by zero.\<close>

definition int_div :: "int \<Rightarrow> int \<Rightarrow> fault + int" where
  "int_div a b = (if b = 0 then Inl DivisionByZero else Inr (sgn a * sgn b * (\<bar>a\<bar> div \<bar>b\<bar>)))"

subsubsection \<open>StopCapture\<close>

definition close_pipe :: "pointer \<Rightarrow> event list" where
  "close_pipe p = (case p of None \<Rightarrow> [] | Some h \<Rightarrow> [Fflush h, Fclose h])"

definition release :: "pointer \<Rightarrow> event list" where
  "release p = (case p of None \<Rightarrow> [] | Some h \<Rightarrow> [Release h])"

definition clear_pass :: "CapturePass \<Rightarrow> CapturePass" where
  "clear_pass pass = (if pass_pipe pass \<noteq> None then pass\<lparr>pass_pipe := None\<rparr> else pass)"

text \<open>The calls of one \<^verbatim>\<open>StopCapture\<close>, in the order of the source.\<close>

definition stop_events :: "session \<Rightarrow> event list" where
  "stop_events s =
     [Log LOG_INFO ''Stopped capture (wrote {0} frames)'', ResetVisibleElements]
       @ close_pipe (pipe s)
       @ concat (map (\<lambda>pass. close_pipe (pass_pipe pass)) (passes (captureSettings s)))
       @ release (tempSurface s)
       @ release (backBuffer s)
       @ release (downsampledRenderTarget s)
       @ release (depthSurface s)
       @ release (depthShader s)"

definition StopCapture :: "session \<Rightarrow> session" where
  "StopCapture s =
     s\<lparr>isCapturing := False,
       framePrepared := False,
       pipe := None,
       captureSettings :=
         (captureSettings s)\<lparr>passes := map clear_pass (passes (captureSettings s))\<rparr>,
       tempSurface := None,
       backBuffer := None,
       downsampledRenderTarget := None,
       depthSurface := None,
       depthShader := None,
       trace := trace s @ stop_events s\<rparr>"

subsubsection \<open>PrepareFrame and OnGameFrame\<close>

text \<open>
  \<^verbatim>\<open>GetCaptureSettings()\<close>, declared in the header, answers the member \<open>captureSettings\<close>.
  The quotient is taken only on the branches that return it.
\<close>

definition PrepareFrame :: "session \<Rightarrow> session" where
  "PrepareFrame s =
     (if \<not> isCapturing s then s
      else
        (if MultiPassEnabled s
         then emit [SetVisibleElements
                (elements (passes (captureSettings s)
                   ! (capturedFrameCount s mod length (passes (captureSettings s)))))] s
         else s)\<lparr>framePrepared := True\<rparr>)"

definition OnGameFrame :: "session \<Rightarrow> fault + int" where
  "OnGameFrame s =
     (if MultiPassEnabled s
      then (if capturedFrameCount s mod length (passes (captureSettings s)) = 0
            then int_div 1000 (framerate (captureSettings s))
            else Inr 0)
      else int_div 1000 (framerate (captureSettings s)))"

subsubsection \<open>CaptureFrame\<close>

text \<open>Lines 125 to 132: the pipe the frame goes to.\<close>

definition outputPipe :: "session \<Rightarrow> pointer" where
  "outputPipe s =
     (if MultiPassEnabled s
      then pass_pipe (passes (captureSettings s)
             ! (capturedFrameCount s mod length (passes (captureSettings s))))
      else pipe s)"

definition surfaceByteSize :: "session \<Rightarrow> int" where
  "surfaceByteSize s =
     int32 (int32 (width (screenDimensions s) * height (screenDimensions s)) * 4)"

definition CaptureFrame :: "env \<Rightarrow> session \<Rightarrow> fault + session" where
  "CaptureFrame e s0 =
     (let s1 = s0\<lparr>framePrepared := False\<rparr>;
          out = outputPipe s1;
          s2 = (if MultiPassEnabled s1
                then emit [DrawShaderForPassIndex
                       (capturedFrameCount s1 mod length (passes (captureSettings s1)))] s1
                else s1)
      in if \<not> StretchRect e
         then Inr (StopCapture
                (emit [Log LOG_ERROR ''Failed to copy data from backbuffer to render target''] s2))
         else if \<not> GetRenderTargetData e
         then Inr (StopCapture
                (emit [Log LOG_ERROR ''Failed copy render target data to surface''] s2))
         else if tempSurface s2 = None then Inl NullPointer
         else if \<not> LockRect e
         then Inr (StopCapture (emit [Log LOG_ERROR ''Failed to lock surface''] s2))
         else
           (case out of
              None \<Rightarrow> Inl NullPointer
            | Some stream \<Rightarrow>
                (let s3 = emit [Fwrite (surfaceByteSize s2) 1 stream] s2;
                     s4 = s3\<lparr>capturedFrameCount := capturedFrameCount s3 + 1\<rparr>
                 in if \<not> UnlockRect e
                    then Inr (StopCapture (emit [Log LOG_ERROR ''Failed to unlock surface''] s4))
                    else if \<not> IsRewinding e \<and> GetTimelineTick e > endTick (captureSettings s4)
                    then Inr (StopCapture s4)
                    else Inr s4)))"

subsubsection \<open>StartCapture\<close>

definition set_pass_pipe :: "nat \<Rightarrow> pointer \<Rightarrow> session \<Rightarrow> session" where
  "set_pass_pipe i p s =
     s\<lparr>captureSettings :=
         (captureSettings s)\<lparr>passes :=
            (passes (captureSettings s))
              [i := (passes (captureSettings s) ! i)\<lparr>pass_pipe := p\<rparr>]\<rparr>\<rparr>"

text \<open>
  One turn of the loop of lines 378 to 391, up to the assignment of \<^verbatim>\<open>pass.pipe\<close>; the
  index is below the number of passes.
\<close>

definition open_pass :: "env \<Rightarrow> nat \<Rightarrow> session \<Rightarrow> (fault \<times> session) + session" where
  "open_pass e i s =
     (case GetFFmpegCommand e (captureSettings s) (outputDirectory e) (screenDimensions s) i of
        Inl f \<Rightarrow> Inl (f, s)
      | Inr (logged, ffmpegCommand) \<Rightarrow>
          Inr (set_pass_pipe i (popen e i)
                 (emit (logged @ [Log LOG_DEBUG ''ffmpeg command: {}'', Popen ffmpegCommand]) s)))"

text \<open>
  The loop: \<open>Inr (True, s)\<close> when every pipe is open, \<open>Inr (False, s)\<close> when the function
  has returned after \<^verbatim>\<open>StopCapture\<close>.
\<close>

function open_pass_pipes ::
  "env \<Rightarrow> nat \<Rightarrow> session \<Rightarrow> (fault \<times> session) + (bool \<times> session)" where
  "open_pass_pipes e i s =
     (if i < length (passes (captureSettings s))
      then (case open_pass e i s of
              Inl thrown \<Rightarrow> Inl thrown
            | Inr s' \<Rightarrow>
                if pass_pipe (passes (captureSettings s') ! i) = None
                then Inr (False, StopCapture (emit [Log LOG_ERROR ''ffmpeg pipe open error''] s'))
                else open_pass_pipes e (i + 1) s')
      else Inr (True, s))"
  by pat_completeness auto

text \<open>Lines 364 to 394: the pipes, and the flag once they are all open.\<close>

definition open_pipes :: "env \<Rightarrow> session \<Rightarrow> (fault \<times> session) + session" where
  "open_pipes e s =
     (if passes (captureSettings s) = []
      then
        (case GetFFmpegCommand e (captureSettings s) (outputDirectory e) (screenDimensions s) 0 of
           Inl f \<Rightarrow> Inl (f, s)
         | Inr (logged, ffmpegCommand) \<Rightarrow>
             (let s' = (emit (logged @ [Log LOG_DEBUG ''ffmpeg command: {}'',
                                        Popen ffmpegCommand]) s)
                         \<lparr>pipe := popen e 0\<rparr>
              in if pipe s' = None
                 then Inr (StopCapture (emit [Log LOG_ERROR ''ffmpeg pipe open error''] s'))
                 else Inr (s'\<lparr>isCapturing := True\<rparr>)))
      else
        (case open_pass_pipes e 0 s of
           Inl thrown \<Rightarrow> Inl thrown
         | Inr (opened, s') \<Rightarrow> if opened then Inr (s'\<lparr>isCapturing := True\<rparr>) else Inr s'))"

definition StartCapture :: "env \<Rightarrow> session \<Rightarrow> (fault \<times> session) + session" where
  "StartCapture e s0 =
     (if startTick (captureSettings s0) \<ge> endTick (captureSettings s0)
      then Inr (emit [Log LOG_ERROR ''Start tick must be less than end tick''] s0)
      else
        (let s1 = emit ((if \<not> outputDirectoryExists e then [CreateDirectories] else [])
                        @ [SetTickDelta (int32 (startTick (captureSettings s0) - GetTimelineTick e)) True])
                    s0;
             s2 = emit [Log LOG_INFO ''Starting capture at {0} ({1} fps)'']
                    (s1\<lparr>capturedFrameCount := 0\<rparr>)
         in case GetBackBuffer e of
              None \<Rightarrow> Inr (StopCapture (emit [Log LOG_ERROR ''Failed to capture backbuffer''] s2))
            | Some bb \<Rightarrow>
         (let s3 = s2\<lparr>backBuffer := Some bb\<rparr>
          in case GetDesc e of
               None \<Rightarrow>
                 Inr (StopCapture (emit [Log LOG_ERROR ''Failed to get backbuffer description''] s3))
             | Some bbDesc \<Rightarrow>
          (case CreateOffscreenPlainSurface e of
             None \<Rightarrow>
               Inr (StopCapture (emit [Log LOG_ERROR ''Failed to create temporary surface''] s3))
           | Some surface \<Rightarrow>
          (let s4 = s3\<lparr>tempSurface := Some surface\<rparr>
           in case CreateRenderTarget e of
                None \<Rightarrow>
                  Inr (StopCapture (emit [Log LOG_ERROR ''Failed to create render target''] s4))
              | Some target \<Rightarrow>
          (let s5 = s4\<lparr>downsampledRenderTarget := Some target,
                      screenDimensions :=
                        \<lparr>width = int32 (int (Width bbDesc)),
                         height = int32 (int (Height bbDesc))\<rparr>\<rparr>
           in if \<not> ffmpegExists e
              then Inr (StopCapture
                     (emit [Log LOG_ERROR ''ffmpeg is not present in the game directory'']
                        (s5\<lparr>ffmpegNotFound := True\<rparr>)))
              else open_pipes e (s5\<lparr>ffmpegNotFound := False\<rparr>)))))))"

definition ToggleCapture :: "env \<Rightarrow> session \<Rightarrow> (fault \<times> session) + session" where
  "ToggleCapture e s = (if \<not> isCapturing s then StartCapture e s else Inr (StopCapture s))"

subsection \<open>What the statements speak of\<close>



fun is_Fwrite :: "event \<Rightarrow> bool" where
  "is_Fwrite (Fwrite bytes n stream) = True"
| "is_Fwrite ev = False"

text \<open>
  The steps of a start, as answered by the collaborators, and what a capturing session
  holds.
\<close>

definition start_steps_succeed :: "env \<Rightarrow> session \<Rightarrow> bool" where
  "start_steps_succeed e s =
     (GetBackBuffer e \<noteq> None \<and> GetDesc e \<noteq> None
      \<and> CreateOffscreenPlainSurface e \<noteq> None \<and> CreateRenderTarget e \<noteq> None
      \<and> ffmpegExists e
      \<and> list_all (\<lambda>i. popen e i \<noteq> None) [0..<max 1 (length (passes (captureSettings s)))])"

definition resources_held :: "session \<Rightarrow> bool" where
  "resources_held s =
     (backBuffer s \<noteq> None \<and> tempSurface s \<noteq> None \<and> downsampledRenderTarget s \<noteq> None
      \<and> (if passes (captureSettings s) = [] then pipe s \<noteq> None
          else list_all (\<lambda>pass. pass_pipe pass \<noteq> None) (passes (captureSettings s))))"

subsection \<open>Sample inputs\<close>

definition sample_settings :: CaptureSettings where
  "sample_settings =
     \<lparr>startTick = 10, endTick = 100, outputFormat = Video, videoCodec = Some Prores422,
      resolution = \<lparr>width = 1280, height = 720\<rparr>, framerate = 30, passes = []\<rparr>"

definition sample_env :: env where
  "sample_env =
     \<lparr>outputDirectory = ''recordings'', outputDirectoryExists = True,
      directoryEntries = [''Pass 0.mov'', ''Pass 0(1).mov''],
      GetShortPathName = ''ffmpeg.exe'', ffmpegExists = True,
      popen = (\<lambda>i. Some (10 + i)), GetTimelineTick = 50, IsRewinding = False,
      GetBackBuffer = Some 1, GetDesc = Some \<lparr>Width = 1920, Height = 1080\<rparr>,
      CreateOffscreenPlainSurface = Some 2, CreateRenderTarget = Some 3,
      StretchRect = True, GetRenderTargetData = True, LockRect = True, UnlockRect = True\<rparr>"

definition sample_session :: session where
  "sample_session =
     \<lparr>captureSettings = sample_settings, isCapturing = False, capturedFrameCount = 0,
      framePrepared = False, ffmpegNotFound = False,
      screenDimensions = \<lparr>width = 0, height = 0\<rparr>,
      pipe = None, backBuffer = None, tempSurface = None, downsampledRenderTarget = None,
      depthSurface = None, depthShader = None, trace = []\<rparr>"

definition three_passes :: "nat \<Rightarrow> session" where
  "three_passes n =
     sample_session\<lparr>captureSettings :=
        sample_settings\<lparr>passes := [\<lparr>elements = {1}, pass_pipe = Some 10\<rparr>,
                                   \<lparr>elements = {2}, pass_pipe = Some 11\<rparr>,
                                   \<lparr>elements = {3}, pass_pipe = Some 12\<rparr>]\<rparr>,
        capturedFrameCount := n\<rparr>"

definition held_session :: session where
  "held_session =
     (three_passes 4)\<lparr>isCapturing := True, framePrepared := True, backBuffer := Some 1,
        tempSurface := Some 2, downsampledRenderTarget := Some 3,
        screenDimensions := \<lparr>width = 1920, height = 1080\<rparr>\<rparr>"

section \<open>The loops end\<close>

termination format_nat
  by (relation "measure id") auto

declare format_nat.simps [simp del]

lemma digit_inj: "a < 10 \<Longrightarrow> b < 10 \<Longrightarrow> digit a = digit b \<Longrightarrow> a = b"
proof -
  assume a: "a < 10" and b: "b < 10" and eq: "digit a = digit b"
  have d: "distinct ''0123456789''" by simp
  have "a < length ''0123456789''" "b < length ''0123456789''" using a b by simp_all
  with d eq show "a = b" unfolding digit_def by (simp only: nth_eq_iff_index_eq)
qed

lemma format_nat_nonempty: "format_nat n \<noteq> []"
  by (subst format_nat.simps) simp

lemma format_nat_inj: "format_nat m = format_nat n \<Longrightarrow> m = n"
proof (induction m arbitrary: n rule: format_nat.induct)
  case (1 m)
  show ?case
  proof (cases "m < 10")
    case small_m: True
    then have m: "format_nat m = [digit m]" by (subst format_nat.simps) simp
    show ?thesis
    proof (cases "n < 10")
      case True
      then have "format_nat n = [digit n]" by (subst format_nat.simps) simp
      with m small_m True "1.prems" show ?thesis by (simp add: digit_inj)
    next
      case False
      have "format_nat n = format_nat (n div 10) @ [digit (n mod 10)]"
        using False by (subst format_nat.simps) simp
      with m show ?thesis
        using "1.prems" format_nat_nonempty [of "n div 10"] by simp
    qed
  next
    case big_m: False
    have m: "format_nat m = format_nat (m div 10) @ [digit (m mod 10)]"
      using big_m by (subst format_nat.simps) simp
    show ?thesis
    proof (cases "n < 10")
      case True
      then have "format_nat n = [digit n]" by (subst format_nat.simps) simp
      with m "1.prems" format_nat_nonempty [of "m div 10"] show ?thesis by simp
    next
      case False
      then have n: "format_nat n = format_nat (n div 10) @ [digit (n mod 10)]"
        by (subst format_nat.simps) simp
      from m n "1.prems" have pre: "format_nat (m div 10) = format_nat (n div 10)"
        and dig: "digit (m mod 10) = digit (n mod 10)" by simp_all
      from "1.IH" [OF big_m pre] have q: "m div 10 = n div 10" .
      from dig have r: "m mod 10 = n mod 10" by (simp add: digit_inj)
      from q r show ?thesis by (metis div_mult_mod_eq)
    qed
  qed
qed

lemma pass_filename_n_inj: "pass_filename_n k i = pass_filename_n k j \<Longrightarrow> i = j"
  by (simp add: pass_filename_n_def format_nat_inj)

lemma finite_taken: "finite {n. pass_filename_n k n \<in> set entries}"
proof -
  have "inj (pass_filename_n k)" by (rule injI) (rule pass_filename_n_inj)
  then have "finite (pass_filename_n k -` set entries)" by (rule finite_vimageI [rotated]) simp
  then show ?thesis by (simp add: vimage_def)
qed

lemma names_ahead_step:
  assumes "filename \<in> set entries"
  shows "names_ahead entries k (pass_filename_n k (i + 1)) (i + 1)
           < names_ahead entries k filename i"
proof -
  let ?A = "{n. i < n \<and> pass_filename_n k n \<in> set entries}"
  let ?B = "{n. i + 1 < n \<and> pass_filename_n k n \<in> set entries}"
  have fin: "finite ?A" by (rule finite_subset [OF _ finite_taken [of k entries]]) auto
  show ?thesis
  proof (cases "pass_filename_n k (i + 1) \<in> set entries")
    case True
    then have "?A = insert (i + 1) ?B" by (auto simp: less_Suc_eq Suc_lessI)
    moreover have "i + 1 \<notin> ?B" by simp
    moreover have "finite ?B" by (rule finite_subset [OF _ fin]) auto
    ultimately have "card ?A = card ?B + 1" by simp
    with True assms show ?thesis by (simp add: names_ahead_def)
  next
    case False
    then have "?A = ?B" by (auto simp: Suc_lessI) (metis Suc_lessI)
    with False assms show ?thesis by (simp add: names_ahead_def)
  qed
qed

termination filename_loop
proof (relation "measure (\<lambda>(entries, passIndex, filename, i). names_ahead entries passIndex filename i)")
  fix entries :: "string list" and passIndex i :: nat and filename :: string
  assume "filename \<in> set entries"
  from names_ahead_step [OF this, of passIndex i]
  show "((entries, passIndex, pass_filename_n passIndex (i + 1), i + 1),
         (entries, passIndex, filename, i))
        \<in> measure (\<lambda>(entries, passIndex, filename, i). names_ahead entries passIndex filename i)"
    by simp
qed simp

declare filename_loop.simps [simp del]

lemma open_pass_length:
  "open_pass e i s = Inr s' \<Longrightarrow>
     length (passes (captureSettings s')) = length (passes (captureSettings s))"
  by (auto simp: open_pass_def set_pass_pipe_def emit_def split: sum.splits prod.splits)

termination open_pass_pipes
  by (relation "measure (\<lambda>(e, i, s). length (passes (captureSettings s)) - i)")
     (auto simp: open_pass_length)

declare open_pass_pipes.simps [simp del]

section \<open>Properties\<close>

subsection \<open>The file name of a video pass\<close>


lemma GetFFmpegCommand_Video:
  assumes "outputFormat settings = Video" and "videoCodec settings = Some codec"
  shows "GetFFmpegCommand e settings dir dims k =
     Inr (snd (snd (video_profile codec)),
          video_command (GetShortPathName e) dims (framerate settings)
            (fst (video_profile codec)) (fst (snd (video_profile codec)))
            (resolution settings) dir
            (filename_loop (directoryEntries e) k (pass_filename k) 0))"
  using assms by (simp add: GetFFmpegCommand_def split: prod.splits)














subsection \<open>The codec of a video pass\<close>

text \<open>
  With Video output and a codec present, the command is built whatever the codec: a
  value that is none of the five ProRes variants takes profile 4 and pixel format
  \<open>yuv444p10le\<close> (those of \<open>Prores4444\<close>) and logs one line at error level.
\<close>

lemma GetFFmpegCommand_codec_present:
  assumes "outputFormat settings = Video" and "videoCodec settings = Some codec"
  shows "(\<exists>logged command. GetFFmpegCommand e settings dir dims k = Inr (logged, command)
            \<and> command \<noteq> [])
       \<and> (\<forall>v. codec = OtherVideoCodec v \<longrightarrow>
            GetFFmpegCommand e settings dir dims k =
              Inr ([Log LOG_ERROR ''Unsupported video codec. Choosing default ({})''],
                   video_command (GetShortPathName e) dims (framerate settings) 4
                     ''yuv444p10le'' (resolution settings) dir
                     (filename_loop (directoryEntries e) k (pass_filename k) 0)))
       \<and> video_profile Prores4444 = (4, ''yuv444p10le'', [])"
  using GetFFmpegCommand_Video [OF assms, of e dir dims k]
  by (auto simp: video_command_def video_profile_def)

text \<open>
  C9. The code does not do what the claim says where the codec is absent: for Video
  output without a codec \<^verbatim>\<open>captureSettings.videoCodec.value()\<close> (line 248) throws, and no
  command is built. The neighbouring cases do fall back with a log line: a codec that is
  none of the five takes profile 4 and \<open>yuv444p10le\<close> (lines 270 to 275), and an output
  format without a command answers the empty command (lines 291 to 293).
\<close>

theorem GetFFmpegCommand_codec_absent:
  "GetFFmpegCommand sample_env (sample_settings\<lparr>videoCodec := None\<rparr>) ''recordings''
     \<lparr>width = 1920, height = 1080\<rparr> 0 = Inl BadOptionalAccess
   \<and> GetFFmpegCommand sample_env (sample_settings\<lparr>videoCodec := Some (OtherVideoCodec 7)\<rparr>)
       ''recordings'' \<lparr>width = 1920, height = 1080\<rparr> 0
     = Inr ([Log LOG_ERROR ''Unsupported video codec. Choosing default ({})''],
            video_command ''ffmpeg.exe'' \<lparr>width = 1920, height = 1080\<rparr> 30 4 ''yuv444p10le''
              \<lparr>width = 1280, height = 720\<rparr> ''recordings'' ''Pass 0(2).mov'')
   \<and> GetFFmpegCommand sample_env (sample_settings\<lparr>outputFormat := CameraData\<rparr>)
       ''recordings'' \<lparr>width = 1920, height = 1080\<rparr> 0
     = Inr ([Log LOG_ERROR ''Output format not supported''], [])"
  by (simp add: GetFFmpegCommand_def video_profile_def sample_settings_def sample_env_def
        filename_loop.simps pass_filename_def pass_filename_n_def format_nat.simps digit_def)

subsection \<open>PrepareFrame while idle\<close>

text \<open>
  C10. In every state in which \<open>isCapturing\<close> is false, \<^verbatim>\<open>PrepareFrame\<close> returns at once: the
  session is as before, so \<open>framePrepared\<close> keeps its value, and the trace is as before,
  so the renderer is not told to change the visible elements.
\<close>

theorem PrepareFrame_idle:
  assumes "\<not> isCapturing s"
  shows "PrepareFrame s = s
       \<and> framePrepared (PrepareFrame s) = framePrepared s
       \<and> trace (PrepareFrame s) = trace s"
  using assms by (simp add: PrepareFrame_def)

theorem PrepareFrame_idle_witness:
  "\<not> isCapturing sample_session
   \<and> PrepareFrame sample_session = sample_session
   \<and> framePrepared (PrepareFrame sample_session) = False
   \<and> trace (PrepareFrame sample_session) = []"
proof -
  have idle: "\<not> isCapturing sample_session" by (simp add: sample_session_def)
  from PrepareFrame_idle [OF idle] idle show ?thesis by (simp add: sample_session_def)
qed

subsection \<open>The tick range is checked first\<close>

text \<open>
  C5. When \<open>startTick \<ge> endTick\<close>, \<^verbatim>\<open>StartCapture\<close> returns after one log line: every member
  of the session is as before (the frame count, the surfaces, the pipes of the session
  and of the passes), nothing is asked of the device, no pipe is opened and the timeline
  is not moved. From an idle session, the only state in which \<^verbatim>\<open>ToggleCapture\<close> calls it,
  it returns with \<open>isCapturing\<close> false.
\<close>

theorem StartCapture_tick_range:
  assumes "startTick (captureSettings s) \<ge> endTick (captureSettings s)"
    and "\<not> isCapturing s"
  shows "StartCapture e s =
           Inr (s\<lparr>trace := trace s @ [Log LOG_ERROR ''Start tick must be less than end tick'']\<rparr>)
       \<and> ToggleCapture e s = StartCapture e s
       \<and> (\<exists>s'. StartCapture e s = Inr s' \<and> \<not> isCapturing s'
             \<and> captureSettings s' = captureSettings s
             \<and> capturedFrameCount s' = capturedFrameCount s
             \<and> framePrepared s' = framePrepared s
             \<and> ffmpegNotFound s' = ffmpegNotFound s
             \<and> screenDimensions s' = screenDimensions s
             \<and> pipe s' = pipe s \<and> backBuffer s' = backBuffer s
             \<and> tempSurface s' = tempSurface s
             \<and> downsampledRenderTarget s' = downsampledRenderTarget s
             \<and> depthSurface s' = depthSurface s \<and> depthShader s' = depthShader s)"
  using assms by (simp add: StartCapture_def ToggleCapture_def emit_def)

theorem StartCapture_tick_range_witness:
  "startTick (captureSettings (sample_session\<lparr>captureSettings := sample_settings\<lparr>startTick := 100\<rparr>\<rparr>))
     \<ge> endTick (captureSettings (sample_session\<lparr>captureSettings := sample_settings\<lparr>startTick := 100\<rparr>\<rparr>))
   \<and> \<not> isCapturing (sample_session\<lparr>captureSettings := sample_settings\<lparr>startTick := 100\<rparr>\<rparr>)
   \<and> StartCapture sample_env (sample_session\<lparr>captureSettings := sample_settings\<lparr>startTick := 100\<rparr>\<rparr>)
       = Inr (sample_session\<lparr>captureSettings := sample_settings\<lparr>startTick := 100\<rparr>,
                trace := [Log LOG_ERROR ''Start tick must be less than end tick'']\<rparr>)"
proof -
  let ?s = "sample_session\<lparr>captureSettings := sample_settings\<lparr>startTick := 100\<rparr>\<rparr>"
  have range: "startTick (captureSettings ?s) \<ge> endTick (captureSettings ?s)"
    by (simp add: sample_settings_def)
  have idle: "\<not> isCapturing ?s" by (simp add: sample_session_def)
  from StartCapture_tick_range [OF range idle, of sample_env] range idle
  show ?thesis by (simp add: sample_session_def)
qed

subsection \<open>The cadence of OnGameFrame\<close>

text \<open>
  C3, as the code has it. With a frame rate other than 0, \<^verbatim>\<open>OnGameFrame\<close> returns
  \<open>1000/framerate\<close> when the pass list is empty, and with passes it returns
  \<open>1000/framerate\<close> when \<open>capturedFrameCount mod passCount = 0\<close> and 0 otherwise. For three
  passes at 30 frames per second the values at the counts 0, 1, 2, 3, 4, 5 are
  33, 0, 0, 33, 0, 0.
\<close>

theorem OnGameFrame_cadence:
  assumes "framerate (captureSettings s) \<noteq> 0"
  shows "OnGameFrame s =
           Inr (if passes (captureSettings s) = []
                     \<or> capturedFrameCount s mod length (passes (captureSettings s)) = 0
                then sgn (framerate (captureSettings s)) * (1000 div \<bar>framerate (captureSettings s)\<bar>)
                else 0)
       \<and> (0 < framerate (captureSettings s) \<longrightarrow>
            sgn (framerate (captureSettings s)) * (1000 div \<bar>framerate (captureSettings s)\<bar>)
              = 1000 div framerate (captureSettings s))
       \<and> map (\<lambda>n. OnGameFrame (three_passes n)) [0, 1, 2, 3, 4, 5]
           = [Inr 33, Inr 0, Inr 0, Inr 33, Inr 0, Inr 0]"
proof (intro conjI)
  show "OnGameFrame s =
           Inr (if passes (captureSettings s) = []
                     \<or> capturedFrameCount s mod length (passes (captureSettings s)) = 0
                then sgn (framerate (captureSettings s)) * (1000 div \<bar>framerate (captureSettings s)\<bar>)
                else 0)"
    using assms by (simp add: OnGameFrame_def MultiPassEnabled_def int_div_def)
  show "0 < framerate (captureSettings s) \<longrightarrow>
            sgn (framerate (captureSettings s)) * (1000 div \<bar>framerate (captureSettings s)\<bar>)
              = 1000 div framerate (captureSettings s)"
    by simp
  show "map (\<lambda>n. OnGameFrame (three_passes n)) [0, 1, 2, 3, 4, 5]
           = [Inr 33, Inr 0, Inr 0, Inr 33, Inr 0, Inr 0]"
    by (simp add: OnGameFrame_def MultiPassEnabled_def int_div_def three_passes_def
          sample_session_def sample_settings_def)
qed

theorem OnGameFrame_cadence_witness:
  "framerate (captureSettings (three_passes 4)) \<noteq> 0
   \<and> OnGameFrame (three_passes 4) = Inr 0
   \<and> OnGameFrame (three_passes 3) = Inr 33
   \<and> OnGameFrame sample_session = Inr 33"
proof -
  have r: "framerate (captureSettings (three_passes n)) \<noteq> 0" for n
    by (simp add: three_passes_def sample_settings_def)
  have r0: "framerate (captureSettings sample_session) \<noteq> 0"
    by (simp add: sample_session_def sample_settings_def)
  from OnGameFrame_cadence [OF r, of 4] OnGameFrame_cadence [OF r, of 3]
    OnGameFrame_cadence [OF r0] r [of 4]
  show ?thesis
    by (simp add: three_passes_def sample_session_def sample_settings_def)
qed

text \<open>
  The sequence of the spec (0, 0, 33, 0, 0, 33) is not the one of the code: at the count 0
  the value is 33, and at the count 2 it is 0.
\<close>

theorem OnGameFrame_sequence_counterexample:
  "OnGameFrame (three_passes 0) = Inr 33 \<and> OnGameFrame (three_passes 2) = Inr 0"
  by (simp add: OnGameFrame_def MultiPassEnabled_def int_div_def three_passes_def
        sample_session_def sample_settings_def)

subsection \<open>StopCapture\<close>

lemma StopCapture_members [simp]:
  "isCapturing (StopCapture s) = False"
  "framePrepared (StopCapture s) = False"
  "pipe (StopCapture s) = None"
  "tempSurface (StopCapture s) = None"
  "backBuffer (StopCapture s) = None"
  "downsampledRenderTarget (StopCapture s) = None"
  "depthSurface (StopCapture s) = None"
  "depthShader (StopCapture s) = None"
  "capturedFrameCount (StopCapture s) = capturedFrameCount s"
  "ffmpegNotFound (StopCapture s) = ffmpegNotFound s"
  "screenDimensions (StopCapture s) = screenDimensions s"
  "trace (StopCapture s) = trace s @ stop_events s"
  "passes (captureSettings (StopCapture s)) = map clear_pass (passes (captureSettings s))"
  "endTick (captureSettings (StopCapture s)) = endTick (captureSettings s)"
  by (simp_all add: StopCapture_def)

lemma pass_pipe_clear_pass [simp]: "pass_pipe (clear_pass pass) = None"
  by (simp add: clear_pass_def)

lemma clear_pass_idem [simp]: "clear_pass (clear_pass pass) = clear_pass pass"
  by (simp add: clear_pass_def)

lemma close_cleared [simp]:
  "concat (map (\<lambda>pass. close_pipe (pass_pipe pass)) (map clear_pass ps)) = []"
  by (induction ps) (simp_all add: close_pipe_def)

lemma stop_events_StopCapture:
  "stop_events (StopCapture s) =
     [Log LOG_INFO ''Stopped capture (wrote {0} frames)'', ResetVisibleElements]"
  by (simp add: stop_events_def close_pipe_def release_def)

lemma StopCapture_twice:
  "StopCapture (StopCapture s) =
     (StopCapture s)\<lparr>trace := trace (StopCapture s)
        @ [Log LOG_INFO ''Stopped capture (wrote {0} frames)'', ResetVisibleElements]\<rparr>"
proof -
  have "StopCapture (StopCapture s) =
      (StopCapture s)\<lparr>trace := trace (StopCapture s) @ stop_events (StopCapture s)\<rparr>"
    by (simp add: StopCapture_def comp_def)
  then show ?thesis by (simp only: stop_events_StopCapture)
qed

text \<open>
  C6. From any session, one \<^verbatim>\<open>StopCapture\<close> leaves every pipe null, after a flush and a
  close of each pipe that was open, and every surface and shader null, after a release
  of each that was held; \<open>framePrepared\<close> and \<open>isCapturing\<close> are false. A second call in
  succession closes and releases nothing (it logs its line and resets the visible
  elements) and leaves every member of the session as the first call left it.
\<close>

theorem StopCapture_idempotent:
  "pipe (StopCapture s) = None
   \<and> list_all (\<lambda>pass. pass_pipe pass = None) (passes (captureSettings (StopCapture s)))
   \<and> tempSurface (StopCapture s) = None \<and> backBuffer (StopCapture s) = None
   \<and> downsampledRenderTarget (StopCapture s) = None
   \<and> depthSurface (StopCapture s) = None \<and> depthShader (StopCapture s) = None
   \<and> \<not> framePrepared (StopCapture s) \<and> \<not> isCapturing (StopCapture s)
   \<and> trace (StopCapture s) =
        trace s @ [Log LOG_INFO ''Stopped capture (wrote {0} frames)'', ResetVisibleElements]
          @ close_pipe (pipe s)
          @ concat (map (\<lambda>pass. close_pipe (pass_pipe pass)) (passes (captureSettings s)))
          @ release (tempSurface s) @ release (backBuffer s)
          @ release (downsampledRenderTarget s) @ release (depthSurface s)
          @ release (depthShader s)
   \<and> close_pipe None = [] \<and> close_pipe (Some h) = [Fflush h, Fclose h]
   \<and> release None = [] \<and> release (Some h) = [Release h]
   \<and> trace (StopCapture (StopCapture s)) =
        trace (StopCapture s)
          @ [Log LOG_INFO ''Stopped capture (wrote {0} frames)'', ResetVisibleElements]
   \<and> (StopCapture (StopCapture s))\<lparr>trace := []\<rparr> = (StopCapture s)\<lparr>trace := []\<rparr>"
proof -
  have cleared: "list_all (\<lambda>pass. pass_pipe pass = None)
      (passes (captureSettings (StopCapture s)))"
    by (simp add: list_all_iff)
  have calls: "trace (StopCapture s) =
        trace s @ [Log LOG_INFO ''Stopped capture (wrote {0} frames)'', ResetVisibleElements]
          @ close_pipe (pipe s)
          @ concat (map (\<lambda>pass. close_pipe (pass_pipe pass)) (passes (captureSettings s)))
          @ release (tempSurface s) @ release (backBuffer s)
          @ release (downsampledRenderTarget s) @ release (depthSurface s)
          @ release (depthShader s)"
    by (simp add: stop_events_def)
  have second: "trace (StopCapture (StopCapture s)) =
        trace (StopCapture s)
          @ [Log LOG_INFO ''Stopped capture (wrote {0} frames)'', ResetVisibleElements]"
    by (subst StopCapture_twice) simp
  have same: "(StopCapture (StopCapture s))\<lparr>trace := []\<rparr> = (StopCapture s)\<lparr>trace := []\<rparr>"
    by (subst StopCapture_twice) simp
  have defs: "close_pipe None = []" "close_pipe (Some h) = [Fflush h, Fclose h]"
    "release None = []" "release (Some h) = [Release h]"
    by (simp_all add: close_pipe_def release_def)
  from cleared calls second same defs show ?thesis by simp
qed

theorem StopCapture_idempotent_witness:
  "trace (StopCapture held_session) =
     [Log LOG_INFO ''Stopped capture (wrote {0} frames)'', ResetVisibleElements,
      Fflush 10, Fclose 10, Fflush 11, Fclose 11, Fflush 12, Fclose 12,
      Release 2, Release 1, Release 3]
   \<and> trace (StopCapture (StopCapture held_session)) =
     [Log LOG_INFO ''Stopped capture (wrote {0} frames)'', ResetVisibleElements,
      Fflush 10, Fclose 10, Fflush 11, Fclose 11, Fflush 12, Fclose 12,
      Release 2, Release 1, Release 3,
      Log LOG_INFO ''Stopped capture (wrote {0} frames)'', ResetVisibleElements]
   \<and> isCapturing held_session \<and> \<not> isCapturing (StopCapture held_session)"
proof -
  have t: "trace held_session = []" "pipe held_session = None"
    "passes (captureSettings held_session) =
       [\<lparr>elements = {1}, pass_pipe = Some 10\<rparr>, \<lparr>elements = {2}, pass_pipe = Some 11\<rparr>,
        \<lparr>elements = {3}, pass_pipe = Some 12\<rparr>]"
    "tempSurface held_session = Some 2" "backBuffer held_session = Some 1"
    "downsampledRenderTarget held_session = Some 3"
    "depthSurface held_session = None" "depthShader held_session = None"
    "isCapturing held_session"
    by (simp_all add: held_session_def three_passes_def sample_session_def)
  from StopCapture_idempotent [of held_session 0] t
  show ?thesis by (simp add: close_pipe_def release_def)
qed

subsection \<open>CaptureFrame\<close>

lemma no_Fwrite_close_pipe [simp]: "filter is_Fwrite (close_pipe p) = []"
  by (cases p) (simp_all add: close_pipe_def)

lemma no_Fwrite_release [simp]: "filter is_Fwrite (release p) = []"
  by (cases p) (simp_all add: release_def)

lemma no_Fwrite_close [simp]:
  "filter is_Fwrite (concat (map (\<lambda>pass. close_pipe (pass_pipe pass)) ps)) = []"
  by (induction ps) simp_all

lemma no_Fwrite_stop [simp]: "filter is_Fwrite (stop_events s) = []"
  by (simp add: stop_events_def)

lemma int32_in_range: "- (2 ^ 31) \<le> k \<Longrightarrow> k < 2 ^ 31 \<Longrightarrow> int32 k = k"
  unfolding int32_def by (rule signed_take_bit_int_eq_self)

lemma surfaceByteSize_in_range:
  assumes w: "0 \<le> width (screenDimensions s)" and h: "0 \<le> height (screenDimensions s)"
    and b: "width (screenDimensions s) * height (screenDimensions s) * 4 < 2 ^ 31"
  shows "surfaceByteSize s = width (screenDimensions s) * height (screenDimensions s) * 4"
proof -
  let ?p = "width (screenDimensions s) * height (screenDimensions s)"
  have p: "0 \<le> ?p" using w h by (rule mult_nonneg_nonneg)
  from p have "?p \<le> ?p * 4" by linarith
  with b have "?p < 2 ^ 31" by linarith
  have lo: "- (2 ^ 31) \<le> k" if "0 \<le> k" for k :: int
    using that by (rule order_trans [rotated]) simp
  have "int32 ?p = ?p" using lo [OF p] \<open>?p < 2 ^ 31\<close> by (rule int32_in_range)
  moreover have "0 \<le> ?p * 4" using p by linarith
  then have "int32 (?p * 4) = ?p * 4" using lo b by (intro int32_in_range) blast+
  ultimately show ?thesis by (simp add: surfaceByteSize_def)
qed

text \<open>
  C2. In a session whose staging surface and destination pipe are held, with a frame
  that fits \<^verbatim>\<open>std::int32_t\<close>, a \<^verbatim>\<open>CaptureFrame\<close> whose copy, resolve and lock succeed
  returns, makes one call of \<^verbatim>\<open>fwrite\<close>, of \<open>width * height * 4\<close> bytes to the destination
  pipe, and leaves \<open>capturedFrameCount\<close> one higher. The destination is the pipe of the
  pass at \<open>capturedFrameCount mod passCount\<close> when there are passes, and the pipe of the
  session otherwise.
\<close>

theorem CaptureFrame_writes_frame:
  assumes "StretchRect e" and "GetRenderTargetData e" and "LockRect e"
    and "tempSurface s \<noteq> None" and "outputPipe s = Some stream"
    and "0 \<le> width (screenDimensions s)" and "0 \<le> height (screenDimensions s)"
    and "width (screenDimensions s) * height (screenDimensions s) * 4 < 2 ^ 31"
  shows "\<exists>s'. CaptureFrame e s = Inr s'
           \<and> capturedFrameCount s' = capturedFrameCount s + 1
           \<and> filter is_Fwrite (drop (length (trace s)) (trace s'))
               = [Fwrite (width (screenDimensions s) * height (screenDimensions s) * 4) 1 stream]
           \<and> outputPipe s =
               (if passes (captureSettings s) = [] then pipe s
                else pass_pipe (passes (captureSettings s)
                       ! (capturedFrameCount s mod length (passes (captureSettings s)))))"
proof -
  let ?s1 = "s\<lparr>framePrepared := False\<rparr>"
  have out: "outputPipe ?s1 = Some stream"
    using assms(5) by (auto simp: outputPipe_def MultiPassEnabled_def)
  have size: "surfaceByteSize s =
      width (screenDimensions s) * height (screenDimensions s) * 4"
    by (rule surfaceByteSize_in_range [OF assms(6-8)])
  have dest: "outputPipe s =
      (if passes (captureSettings s) = [] then pipe s
       else pass_pipe (passes (captureSettings s)
              ! (capturedFrameCount s mod length (passes (captureSettings s)))))"
    by (simp add: outputPipe_def MultiPassEnabled_def)
  show ?thesis
    using assms(1-4) out dest
    by (cases "MultiPassEnabled ?s1")
       (simp_all add: CaptureFrame_def Let_def emit_def surfaceByteSize_def
          size [unfolded surfaceByteSize_def])
qed

theorem CaptureFrame_writes_frame_witness:
  "StretchRect sample_env \<and> GetRenderTargetData sample_env \<and> LockRect sample_env
   \<and> tempSurface held_session \<noteq> None \<and> outputPipe held_session = Some 11
   \<and> 0 \<le> width (screenDimensions held_session)
   \<and> 0 \<le> height (screenDimensions held_session)
   \<and> width (screenDimensions held_session) * height (screenDimensions held_session) * 4 < 2 ^ 31
   \<and> CaptureFrame sample_env held_session =
       Inr (held_session\<lparr>framePrepared := False, capturedFrameCount := 5,
              trace := [DrawShaderForPassIndex 1, Fwrite 8294400 1 11]\<rparr>)"
proof -
  have a: "StretchRect sample_env" "GetRenderTargetData sample_env" "LockRect sample_env"
    by (simp_all add: sample_env_def)
  have b: "tempSurface held_session \<noteq> None" "outputPipe held_session = Some 11"
    by (simp_all add: held_session_def three_passes_def sample_session_def
          sample_settings_def outputPipe_def MultiPassEnabled_def)
  have c: "0 \<le> width (screenDimensions held_session)"
    "0 \<le> height (screenDimensions held_session)"
    "width (screenDimensions held_session) * height (screenDimensions held_session) * 4 < 2 ^ 31"
    by (simp_all add: held_session_def)
  have run: "CaptureFrame sample_env held_session =
       Inr (held_session\<lparr>framePrepared := False, capturedFrameCount := 5,
              trace := [DrawShaderForPassIndex 1, Fwrite 8294400 1 11]\<rparr>)"
    using CaptureFrame_writes_frame [OF a b c]
    by (simp add: CaptureFrame_def Let_def emit_def outputPipe_def MultiPassEnabled_def
          surfaceByteSize_def int32_def signed_take_bit_eq_take_bit_minus take_bit_eq_mod
          held_session_def three_passes_def sample_session_def sample_settings_def
          sample_env_def)
  from a b c run show ?thesis by simp
qed

text \<open>
  C7. A \<^verbatim>\<open>CaptureFrame\<close> that returns while rewinding is inactive and the timeline tick is
  past \<open>endTick\<close> returns from \<^verbatim>\<open>StopCapture\<close>, with \<open>isCapturing\<close> false; and it does return
  when the staging surface and the destination pipe are held.
\<close>

theorem CaptureFrame_past_endTick:
  assumes "\<not> IsRewinding e" and "GetTimelineTick e > endTick (captureSettings s)"
  shows "(tempSurface s \<noteq> None \<and> outputPipe s \<noteq> None \<longrightarrow> (\<exists>s'. CaptureFrame e s = Inr s'))
       \<and> (\<forall>s'. CaptureFrame e s = Inr s' \<longrightarrow>
             \<not> isCapturing s' \<and> (\<exists>s0. s' = StopCapture s0))"
proof (intro conjI allI impI)
  let ?s1 = "s\<lparr>framePrepared := False\<rparr>"
  have out: "outputPipe ?s1 = outputPipe s"
    by (simp add: outputPipe_def MultiPassEnabled_def)
  {
    assume "tempSurface s \<noteq> None \<and> outputPipe s \<noteq> None"
    then obtain stream where "tempSurface s \<noteq> None" "outputPipe s = Some stream" by auto
    then show "\<exists>s'. CaptureFrame e s = Inr s'"
      by (auto simp: CaptureFrame_def Let_def out emit_def)
  }
  fix s' assume run: "CaptureFrame e s = Inr s'"
  have "\<exists>s0. s' = StopCapture s0"
    using run assms
    by (auto simp: CaptureFrame_def Let_def out emit_def split: if_splits option.splits)
  then show "\<exists>s0. s' = StopCapture s0" .
  then show "\<not> isCapturing s'" by auto
qed

theorem CaptureFrame_past_endTick_witness:
  "\<not> IsRewinding (sample_env\<lparr>GetTimelineTick := 101\<rparr>)
   \<and> GetTimelineTick (sample_env\<lparr>GetTimelineTick := 101\<rparr>) > endTick (captureSettings held_session)
   \<and> isCapturing held_session
   \<and> CaptureFrame (sample_env\<lparr>GetTimelineTick := 101\<rparr>) held_session =
       Inr (StopCapture (held_session\<lparr>framePrepared := False, capturedFrameCount := 5,
              trace := [DrawShaderForPassIndex 1, Fwrite 8294400 1 11]\<rparr>))
   \<and> \<not> isCapturing (StopCapture (held_session\<lparr>framePrepared := False,
              capturedFrameCount := 5,
              trace := [DrawShaderForPassIndex 1, Fwrite 8294400 1 11]\<rparr>))"
proof -
  let ?e = "sample_env\<lparr>GetTimelineTick := 101\<rparr>"
  have a: "\<not> IsRewinding ?e" by (simp add: sample_env_def)
  have b: "GetTimelineTick ?e > endTick (captureSettings held_session)"
    by (simp add: held_session_def three_passes_def sample_settings_def)
  have c: "isCapturing held_session" by (simp add: held_session_def)
  have run: "CaptureFrame ?e held_session =
       Inr (StopCapture (held_session\<lparr>framePrepared := False, capturedFrameCount := 5,
              trace := [DrawShaderForPassIndex 1, Fwrite 8294400 1 11]\<rparr>))"
    using CaptureFrame_past_endTick [OF a b]
    by (simp add: CaptureFrame_def Let_def emit_def outputPipe_def MultiPassEnabled_def
          surfaceByteSize_def int32_def signed_take_bit_eq_take_bit_minus take_bit_eq_mod
          held_session_def three_passes_def sample_session_def sample_settings_def
          sample_env_def)
  from a b c run show ?thesis by simp
qed

subsection \<open>StartCapture\<close>

lemma GetFFmpegCommand_returns:
  "outputFormat settings = Video \<longrightarrow> videoCodec settings \<noteq> None \<Longrightarrow>
     \<exists>r. GetFFmpegCommand e settings dir dims k = Inr r"
  by (cases "outputFormat settings")
     (auto simp: GetFFmpegCommand_def split: option.splits prod.splits)

lemma open_pass_result:
  assumes "open_pass e i s = Inr s1"
  shows "passes (captureSettings s1) =
           (passes (captureSettings s))
             [i := (passes (captureSettings s) ! i)\<lparr>pass_pipe := popen e i\<rparr>]"
    and "backBuffer s1 = backBuffer s" and "tempSurface s1 = tempSurface s"
    and "downsampledRenderTarget s1 = downsampledRenderTarget s"
    and "outputFormat (captureSettings s1) = outputFormat (captureSettings s)"
    and "videoCodec (captureSettings s1) = videoCodec (captureSettings s)"
  using assms
  by (auto simp: open_pass_def set_pass_pipe_def emit_def split: sum.splits prod.splits)

lemma open_pass_returns:
  "outputFormat (captureSettings s) = Video \<longrightarrow> videoCodec (captureSettings s) \<noteq> None \<Longrightarrow>
     \<exists>s1. open_pass e i s = Inr s1"
  using GetFFmpegCommand_returns [of "captureSettings s" e "outputDirectory e" "screenDimensions s" i]
  by (auto simp: open_pass_def split: prod.splits)

lemma open_pass_pipes_returns:
  "outputFormat (captureSettings s) = Video \<longrightarrow> videoCodec (captureSettings s) \<noteq> None \<Longrightarrow>
     \<exists>r. open_pass_pipes e i s = Inr r"
proof (induction e i s rule: open_pass_pipes.induct)
  case (1 e i s)
  show ?case
  proof (cases "i < length (passes (captureSettings s))")
    case False
    then have "open_pass_pipes e i s = Inr (True, s)" by (simp add: open_pass_pipes.simps)
    then show ?thesis ..
  next
    case True
    from open_pass_returns [OF "1.prems"] obtain s1 where s1: "open_pass e i s = Inr s1" ..
    show ?thesis
    proof (cases "pass_pipe (passes (captureSettings s1) ! i) = None")
      case closed: True
      with True s1 have "open_pass_pipes e i s =
          Inr (False, StopCapture (emit [Log LOG_ERROR ''ffmpeg pipe open error''] s1))"
        by (simp add: open_pass_pipes.simps)
      then show ?thesis ..
    next
      case opened: False
      have "outputFormat (captureSettings s1) = Video \<longrightarrow> videoCodec (captureSettings s1) \<noteq> None"
        using "1.prems" open_pass_result(5,6) [OF s1] by simp
      from "1.IH" [OF True s1 opened this]
      obtain r where "open_pass_pipes e (i + 1) s1 = Inr r" ..
      moreover have "open_pass_pipes e i s = open_pass_pipes e (i + 1) s1"
        using True s1 opened by (subst open_pass_pipes.simps) auto
      ultimately show ?thesis by simp
    qed
  qed
qed

lemma open_pass_pipes_result:
  "open_pass_pipes e i s = Inr (opened, s') \<Longrightarrow>
     (opened \<longleftrightarrow> (\<forall>j. i \<le> j \<and> j < length (passes (captureSettings s)) \<longrightarrow> popen e j \<noteq> None))
     \<and> (opened \<longrightarrow>
          backBuffer s' = backBuffer s \<and> tempSurface s' = tempSurface s
          \<and> downsampledRenderTarget s' = downsampledRenderTarget s
          \<and> length (passes (captureSettings s')) = length (passes (captureSettings s))
          \<and> (\<forall>j. i \<le> j \<and> j < length (passes (captureSettings s)) \<longrightarrow>
                pass_pipe (passes (captureSettings s') ! j) = popen e j)
          \<and> (\<forall>j<i. passes (captureSettings s') ! j = passes (captureSettings s) ! j))
     \<and> (\<not> opened \<longrightarrow> (\<exists>s0. s' = StopCapture s0))"
proof (induction e i s rule: open_pass_pipes.induct)
  case (1 e i s)
  let ?n = "length (passes (captureSettings s))"
  show ?case
  proof (cases "i < ?n")
    case False
    then have "open_pass_pipes e i s = Inr (True, s)" by (subst open_pass_pipes.simps) simp
    with "1.prems" have "opened" "s' = s" by simp_all
    with False show ?thesis by auto
  next
    case True
    have "open_pass_pipes e i s = Inl f" if "open_pass e i s = Inl f" for f
      using True that by (subst open_pass_pipes.simps) simp
    with "1.prems" obtain s1 where s1: "open_pass e i s = Inr s1"
      by (cases "open_pass e i s") simp_all
    note r = open_pass_result [OF s1]
    have at_i: "pass_pipe (passes (captureSettings s1) ! i) = popen e i"
      using True by (simp add: r(1))
    have len: "length (passes (captureSettings s1)) = ?n" by (simp add: r(1))
    have below: "passes (captureSettings s1) ! j = passes (captureSettings s) ! j" if "j < i" for j
      using that by (simp add: r(1))
    show ?thesis
    proof (cases "popen e i = None")
      case closed: True
      with True s1 at_i have "open_pass_pipes e i s =
          Inr (False, StopCapture (emit [Log LOG_ERROR ''ffmpeg pipe open error''] s1))"
        by (subst open_pass_pipes.simps) simp
      with "1.prems"
      have "\<not> opened" "s' = StopCapture (emit [Log LOG_ERROR ''ffmpeg pipe open error''] s1)"
        by simp_all
      with closed True show ?thesis by auto
    next
      case ok: False
      with at_i have nn: "pass_pipe (passes (captureSettings s1) ! i) \<noteq> None" by simp
      have "open_pass_pipes e i s = open_pass_pipes e (i + 1) s1"
        using True s1 nn by (subst open_pass_pipes.simps) auto
      with "1.prems" have rest: "open_pass_pipes e (i + 1) s1 = Inr (opened, s')" by simp
      note ih = "1.IH" [OF True s1 nn rest, unfolded len]
      have iff: "opened \<longleftrightarrow> (\<forall>j. i \<le> j \<and> j < ?n \<longrightarrow> popen e j \<noteq> None)"
      proof
        assume opened
        with ih have a: "\<forall>j. i + 1 \<le> j \<and> j < ?n \<longrightarrow> popen e j \<noteq> None" by blast
        show "\<forall>j. i \<le> j \<and> j < ?n \<longrightarrow> popen e j \<noteq> None"
        proof (intro allI impI)
          fix j assume j: "i \<le> j \<and> j < ?n"
          then have "j = i \<or> (i + 1 \<le> j \<and> j < ?n)" by auto
          with a ok show "popen e j \<noteq> None" by blast
        qed
      next
        assume "\<forall>j. i \<le> j \<and> j < ?n \<longrightarrow> popen e j \<noteq> None"
        then have "\<forall>j. i + 1 \<le> j \<and> j < ?n \<longrightarrow> popen e j \<noteq> None" by auto
        with ih show opened by blast
      qed
      have kept: "backBuffer s' = backBuffer s \<and> tempSurface s' = tempSurface s
          \<and> downsampledRenderTarget s' = downsampledRenderTarget s
          \<and> length (passes (captureSettings s')) = ?n
          \<and> (\<forall>j. i \<le> j \<and> j < ?n \<longrightarrow> pass_pipe (passes (captureSettings s') ! j) = popen e j)
          \<and> (\<forall>j<i. passes (captureSettings s') ! j = passes (captureSettings s) ! j)"
        if o: opened
      proof -
        from ih o have m: "backBuffer s' = backBuffer s1" "tempSurface s' = tempSurface s1"
          "downsampledRenderTarget s' = downsampledRenderTarget s1"
          "length (passes (captureSettings s')) = ?n"
          and above: "\<forall>j. i + 1 \<le> j \<and> j < ?n \<longrightarrow>
                pass_pipe (passes (captureSettings s') ! j) = popen e j"
          and same: "\<forall>j<i + 1. passes (captureSettings s') ! j = passes (captureSettings s1) ! j"
          by blast+
        have "pass_pipe (passes (captureSettings s') ! j) = popen e j" if "i \<le> j \<and> j < ?n" for j
        proof (cases "j = i")
          case True
          with same at_i show ?thesis by simp
        next
          case False
          with that have "i + 1 \<le> j \<and> j < ?n" by auto
          with above show ?thesis by blast
        qed
        moreover have "passes (captureSettings s') ! j = passes (captureSettings s) ! j" if "j < i" for j
          using same below [OF that] that by simp
        ultimately show ?thesis using m r(2-4) by simp
      qed
      from ih have "\<not> opened \<longrightarrow> (\<exists>s0. s' = StopCapture s0)" by blast
      with iff kept show ?thesis by blast
    qed
  qed
qed

lemma open_pipes_returns:
  assumes "outputFormat (captureSettings s) = Video \<longrightarrow> videoCodec (captureSettings s) \<noteq> None"
  shows "\<exists>s'. open_pipes e s = Inr s'"
proof (cases "passes (captureSettings s) = []")
  case True
  from GetFFmpegCommand_returns [OF assms, of e "outputDirectory e" "screenDimensions s" 0]
  obtain logged command where
    "GetFFmpegCommand e (captureSettings s) (outputDirectory e) (screenDimensions s) 0
       = Inr (logged, command)" by force
  with True show ?thesis by (simp add: open_pipes_def Let_def)
next
  case False
  from open_pass_pipes_returns [OF assms, of e 0]
  obtain opened s1 where "open_pass_pipes e 0 s = Inr (opened, s1)" by force
  with False show ?thesis by (simp add: open_pipes_def)
qed

lemma open_pipes_result:
  assumes "open_pipes e s = Inr s'"
  shows "(isCapturing s' \<longleftrightarrow>
            (\<forall>i<max 1 (length (passes (captureSettings s))). popen e i \<noteq> None))
       \<and> (isCapturing s' \<longrightarrow>
            backBuffer s' = backBuffer s \<and> tempSurface s' = tempSurface s
            \<and> downsampledRenderTarget s' = downsampledRenderTarget s
            \<and> (if passes (captureSettings s') = [] then pipe s' \<noteq> None
                else list_all (\<lambda>pass. pass_pipe pass \<noteq> None) (passes (captureSettings s'))))
       \<and> (\<not> isCapturing s' \<longrightarrow> (\<exists>s0. s' = StopCapture s0))"
proof (cases "passes (captureSettings s) = []")
  case True
  from assms True obtain logged command where
    cmd: "GetFFmpegCommand e (captureSettings s) (outputDirectory e) (screenDimensions s) 0
       = Inr (logged, command)"
    by (auto simp: open_pipes_def split: sum.splits)
  let ?s1 = "(emit (logged @ [Log LOG_DEBUG ''ffmpeg command: {}'', Popen command]) s)
               \<lparr>pipe := popen e 0\<rparr>"
  show ?thesis
  proof (cases "popen e 0 = None")
    case closed: True
    with assms True cmd
    have "s' = StopCapture (emit [Log LOG_ERROR ''ffmpeg pipe open error''] ?s1)"
      by (simp add: open_pipes_def Let_def)
    with closed True show ?thesis by auto
  next
    case False
    with assms True cmd have "s' = ?s1\<lparr>isCapturing := True\<rparr>"
      by (auto simp: open_pipes_def Let_def)
    with False True show ?thesis by (simp add: emit_def)
  qed
next
  case False
  then have n: "0 < length (passes (captureSettings s))" by simp
  from assms False obtain opened s1 where
    loop: "open_pass_pipes e 0 s = Inr (opened, s1)"
    by (auto simp: open_pipes_def split: sum.splits)
  note r = open_pass_pipes_result [OF loop]
  show ?thesis
  proof (cases opened)
    case True
    with assms False loop have s': "s' = s1\<lparr>isCapturing := True\<rparr>"
      by (simp add: open_pipes_def)
    from r True have all: "\<forall>j<length (passes (captureSettings s)). popen e j \<noteq> None"
      and len: "length (passes (captureSettings s1)) = length (passes (captureSettings s))"
      and pipes: "\<forall>j<length (passes (captureSettings s)).
                    pass_pipe (passes (captureSettings s1) ! j) = popen e j"
      and kept: "backBuffer s1 = backBuffer s" "tempSurface s1 = tempSurface s"
        "downsampledRenderTarget s1 = downsampledRenderTarget s"
      by simp_all
    from len n have ne: "passes (captureSettings s1) \<noteq> []" by auto
    have "list_all (\<lambda>pass. pass_pipe pass \<noteq> None) (passes (captureSettings s1))"
      using all pipes len by (simp add: list_all_length)
    with s' all kept ne n show ?thesis by (simp add: max_def)
  next
    case closed: False
    with assms False loop have s': "s' = s1" by (simp add: open_pipes_def)
    from r closed obtain s0 where s0: "s1 = StopCapture s0" by blast
    from r closed have "\<not> (\<forall>j<length (passes (captureSettings s)). popen e j \<noteq> None)"
      by simp
    with s' s0 n show ?thesis by (auto simp: max_def)
  qed
qed

text \<open>
  A start that passes the tick-range check and returns is all or nothing: \<open>isCapturing\<close>
  is true exactly when every step succeeded, a failed step ends in \<^verbatim>\<open>StopCapture\<close>, and a
  capturing session holds the backbuffer, both surfaces and every pipe. It returns
  whenever Video output has a codec.
\<close>

lemma StartCapture_result:
  assumes "startTick (captureSettings s) < endTick (captureSettings s)"
  shows "((outputFormat (captureSettings s) = Video \<longrightarrow> videoCodec (captureSettings s) \<noteq> None)
            \<longrightarrow> (\<exists>s'. StartCapture e s = Inr s'))
       \<and> (\<forall>s'. StartCapture e s = Inr s' \<longrightarrow>
             (isCapturing s' \<longleftrightarrow> start_steps_succeed e s)
             \<and> (isCapturing s' \<longrightarrow> resources_held s' \<and> backBuffer s' = GetBackBuffer e)
             \<and> (\<not> start_steps_succeed e s \<longrightarrow> (\<exists>s0. s' = StopCapture s0)))"
proof -
  let ?ok = "outputFormat (captureSettings s) = Video \<longrightarrow> videoCodec (captureSettings s) \<noteq> None"
  let ?P = "\<lambda>s'. (isCapturing s' \<longleftrightarrow> start_steps_succeed e s)
             \<and> (isCapturing s' \<longrightarrow> resources_held s' \<and> backBuffer s' = GetBackBuffer e)
             \<and> (\<not> start_steps_succeed e s \<longrightarrow> (\<exists>s0. s' = StopCapture s0))"
  have stopped: "?P (StopCapture s0)" if "\<not> start_steps_succeed e s" for s0
    using that by auto
  have guard: "\<not> endTick (captureSettings s) \<le> startTick (captureSettings s)"
    using assms by simp
  consider (bb) "GetBackBuffer e = None"
    | (desc) bb where "GetBackBuffer e = Some bb" "GetDesc e = None"
    | (surface) bb d where "GetBackBuffer e = Some bb" "GetDesc e = Some d"
        "CreateOffscreenPlainSurface e = None"
    | (target) bb d ts where "GetBackBuffer e = Some bb" "GetDesc e = Some d"
        "CreateOffscreenPlainSurface e = Some ts" "CreateRenderTarget e = None"
    | (ffmpeg) bb d ts rt where "GetBackBuffer e = Some bb" "GetDesc e = Some d"
        "CreateOffscreenPlainSurface e = Some ts" "CreateRenderTarget e = Some rt"
        "\<not> ffmpegExists e"
    | (pipes) bb d ts rt where "GetBackBuffer e = Some bb" "GetDesc e = Some d"
        "CreateOffscreenPlainSurface e = Some ts" "CreateRenderTarget e = Some rt"
        "ffmpegExists e"
    by (cases "GetBackBuffer e"; cases "GetDesc e"; cases "CreateOffscreenPlainSurface e";
        cases "CreateRenderTarget e"; cases "ffmpegExists e") auto
  then have "(?ok \<longrightarrow> (\<exists>s'. StartCapture e s = Inr s'))
      \<and> (\<forall>s'. StartCapture e s = Inr s' \<longrightarrow> ?P s')"
  proof cases
    case bb
    then have "\<not> start_steps_succeed e s" by (simp add: start_steps_succeed_def)
    from stopped [OF this] bb guard show ?thesis
      by (simp add: StartCapture_def Let_def del: StopCapture_members)
  next
    case desc
    then have "\<not> start_steps_succeed e s" by (simp add: start_steps_succeed_def)
    from stopped [OF this] desc guard show ?thesis
      by (simp add: StartCapture_def Let_def del: StopCapture_members)
  next
    case surface
    then have "\<not> start_steps_succeed e s" by (simp add: start_steps_succeed_def)
    from stopped [OF this] surface guard show ?thesis
      by (simp add: StartCapture_def Let_def del: StopCapture_members)
  next
    case target
    then have "\<not> start_steps_succeed e s" by (simp add: start_steps_succeed_def)
    from stopped [OF this] target guard show ?thesis
      by (simp add: StartCapture_def Let_def del: StopCapture_members)
  next
    case ffmpeg
    then have "\<not> start_steps_succeed e s" by (simp add: start_steps_succeed_def)
    from stopped [OF this] ffmpeg guard show ?thesis
      by (simp add: StartCapture_def Let_def del: StopCapture_members)
  next
    case pipes
    define s6 where "s6 =
      (emit [Log LOG_INFO ''Starting capture at {0} ({1} fps)'']
         ((emit ((if \<not> outputDirectoryExists e then [CreateDirectories] else [])
                  @ [SetTickDelta (int32 (startTick (captureSettings s) - GetTimelineTick e)) True]) s)
            \<lparr>capturedFrameCount := 0\<rparr>))
        \<lparr>backBuffer := Some bb, tempSurface := Some ts, downsampledRenderTarget := Some rt,
         screenDimensions := \<lparr>width = int32 (int (Width d)), height = int32 (int (Height d))\<rparr>,
         ffmpegNotFound := False\<rparr>"
    have run: "StartCapture e s = open_pipes e s6"
      using pipes guard by (simp add: StartCapture_def Let_def s6_def)
    have members: "captureSettings s6 = captureSettings s" "backBuffer s6 = Some bb"
      "tempSurface s6 = Some ts" "downsampledRenderTarget s6 = Some rt"
      by (simp_all add: s6_def emit_def)
    have steps: "start_steps_succeed e s \<longleftrightarrow>
        (\<forall>i<max 1 (length (passes (captureSettings s6))). popen e i \<noteq> None)"
      using pipes by (auto simp: start_steps_succeed_def members list_all_iff)
    have returns: "?ok \<longrightarrow> (\<exists>s'. StartCapture e s = Inr s')"
      using open_pipes_returns [of s6 e] by (simp add: run members)
    have "?P s'" if "StartCapture e s = Inr s'" for s'
    proof -
      from that run have "open_pipes e s6 = Inr s'" by simp
      note r = open_pipes_result [OF this]
      from r steps have iff: "isCapturing s' \<longleftrightarrow> start_steps_succeed e s" by simp
      from r have held: "isCapturing s' \<longrightarrow> resources_held s' \<and> backBuffer s' = GetBackBuffer e"
        unfolding resources_held_def members pipes by auto
      from r iff have "\<not> start_steps_succeed e s \<longrightarrow> (\<exists>s0. s' = StopCapture s0)" by simp
      with iff held show ?thesis by simp
    qed
    with returns show ?thesis by simp
  qed
  then show ?thesis .
qed

text \<open>
  C1. The code does not do what the claim says where the codec is absent: with Video
  output and no codec, a start that passes the tick-range check and in which every step
  succeeds is left by the exception of \<^verbatim>\<open>GetFFmpegCommand\<close> (line 366 without passes, line
  382 with passes). \<open>isCapturing\<close> is not set though no step failed, \<^verbatim>\<open>StopCapture\<close> is not
  called (the trace has no release), and the backbuffer, the staging surface and the
  render target stay held.
\<close>

theorem StartCapture_codec_absent:
  "startTick (captureSettings
       (sample_session\<lparr>captureSettings := sample_settings\<lparr>videoCodec := None\<rparr>\<rparr>))
     < endTick (captureSettings
         (sample_session\<lparr>captureSettings := sample_settings\<lparr>videoCodec := None\<rparr>\<rparr>))
   \<and> start_steps_succeed sample_env
        (sample_session\<lparr>captureSettings := sample_settings\<lparr>videoCodec := None\<rparr>\<rparr>)
   \<and> StartCapture sample_env
        (sample_session\<lparr>captureSettings := sample_settings\<lparr>videoCodec := None\<rparr>\<rparr>)
     = Inl (BadOptionalAccess,
            sample_session\<lparr>captureSettings := sample_settings\<lparr>videoCodec := None\<rparr>,
              isCapturing := False,
              screenDimensions := \<lparr>width = 1920, height = 1080\<rparr>,
              backBuffer := Some 1, tempSurface := Some 2, downsampledRenderTarget := Some 3,
              trace := [SetTickDelta (- 40) True,
                        Log LOG_INFO ''Starting capture at {0} ({1} fps)'']\<rparr>)
   \<and> start_steps_succeed sample_env
        ((three_passes 0)\<lparr>captureSettings :=
            (captureSettings (three_passes 0))\<lparr>videoCodec := None\<rparr>\<rparr>)
   \<and> StartCapture sample_env
        ((three_passes 0)\<lparr>captureSettings :=
            (captureSettings (three_passes 0))\<lparr>videoCodec := None\<rparr>\<rparr>)
     = Inl (BadOptionalAccess,
            (three_passes 0)\<lparr>captureSettings :=
                (captureSettings (three_passes 0))\<lparr>videoCodec := None\<rparr>,
              isCapturing := False,
              screenDimensions := \<lparr>width = 1920, height = 1080\<rparr>,
              backBuffer := Some 1, tempSurface := Some 2, downsampledRenderTarget := Some 3,
              trace := [SetTickDelta (- 40) True,
                        Log LOG_INFO ''Starting capture at {0} ({1} fps)'']\<rparr>)"
proof -
  have small: "int32 1920 = 1920" "int32 1080 = 1080" "int32 (- 40) = - 40"
    by (simp_all add: int32_in_range)
  have upt3: "[0..<3] = [0, 1, 2]" by (simp add: upt_rec)
  have upt1: "[0..<Suc 0] = [0]" by simp
  show ?thesis
    by (simp add: StartCapture_def open_pipes_def open_pass_pipes.simps open_pass_def
          GetFFmpegCommand_def start_steps_succeed_def Let_def emit_def small upt3
          three_passes_def sample_session_def sample_settings_def sample_env_def)
qed

subsection \<open>The backbuffer\<close>

text \<open>
  C4, as the code has it. \<^verbatim>\<open>StopCapture\<close> leaves the session without a backbuffer
  reference. A \<^verbatim>\<open>StartCapture\<close> that ends capturing has kept the reference the device
  answered, which is not null; a \<^verbatim>\<open>CaptureFrame\<close> that leaves the session capturing leaves
  the reference as it was: it is held from frame to frame, as the source of the copy of
  each frame, until \<^verbatim>\<open>StopCapture\<close> releases it.
\<close>

theorem backBuffer_lifetime:
  "backBuffer (StopCapture s) = None
   \<and> stop_events (s\<lparr>pipe := None, captureSettings := (captureSettings s)\<lparr>passes := []\<rparr>,
          tempSurface := None, downsampledRenderTarget := None, depthSurface := None,
          depthShader := None, backBuffer := Some h\<rparr>)
       = [Log LOG_INFO ''Stopped capture (wrote {0} frames)'', ResetVisibleElements, Release h]
   \<and> (\<forall>s'. startTick (captureSettings s) < endTick (captureSettings s)
          \<and> StartCapture e s = Inr s' \<and> isCapturing s'
          \<longrightarrow> backBuffer s' = GetBackBuffer e \<and> backBuffer s' \<noteq> None)
   \<and> (\<forall>s'. CaptureFrame e s = Inr s' \<and> isCapturing s' \<longrightarrow> backBuffer s' = backBuffer s)"
proof (intro conjI allI impI)
  show "backBuffer (StopCapture s) = None" by simp
  show "stop_events (s\<lparr>pipe := None, captureSettings := (captureSettings s)\<lparr>passes := []\<rparr>,
          tempSurface := None, downsampledRenderTarget := None, depthSurface := None,
          depthShader := None, backBuffer := Some h\<rparr>)
       = [Log LOG_INFO ''Stopped capture (wrote {0} frames)'', ResetVisibleElements, Release h]"
    by (simp add: stop_events_def close_pipe_def release_def)
next
  fix s'
  assume a: "startTick (captureSettings s) < endTick (captureSettings s)
          \<and> StartCapture e s = Inr s' \<and> isCapturing s'"
  then have guard: "startTick (captureSettings s) < endTick (captureSettings s)" by simp
  from StartCapture_result [OF guard, of e] a
  have "resources_held s' \<and> backBuffer s' = GetBackBuffer e" by blast
  then show "backBuffer s' = GetBackBuffer e" "backBuffer s' \<noteq> None"
    by (auto simp: resources_held_def)
next
  fix s' assume "CaptureFrame e s = Inr s' \<and> isCapturing s'"
  then show "backBuffer s' = backBuffer s"
    by (auto simp: CaptureFrame_def Let_def emit_def split: if_splits option.splits)
qed

theorem backBuffer_lifetime_witness:
  "backBuffer (StopCapture held_session) = None
   \<and> backBuffer held_session = Some 1
   \<and> CaptureFrame sample_env held_session =
       Inr (held_session\<lparr>framePrepared := False, capturedFrameCount := 5,
              trace := [DrawShaderForPassIndex 1, Fwrite 8294400 1 11]\<rparr>)
   \<and> backBuffer (held_session\<lparr>framePrepared := False, capturedFrameCount := 5,
              trace := [DrawShaderForPassIndex 1, Fwrite 8294400 1 11]\<rparr>) = Some 1"
proof -
  have run: "CaptureFrame sample_env held_session =
       Inr (held_session\<lparr>framePrepared := False, capturedFrameCount := 5,
              trace := [DrawShaderForPassIndex 1, Fwrite 8294400 1 11]\<rparr>)"
    by (simp add: CaptureFrame_def Let_def emit_def outputPipe_def MultiPassEnabled_def
          surfaceByteSize_def int32_def signed_take_bit_eq_take_bit_minus take_bit_eq_mod
          held_session_def three_passes_def sample_session_def sample_settings_def
          sample_env_def)
  have bb: "backBuffer held_session = Some 1" by (simp add: held_session_def)
  have cap: "isCapturing (held_session\<lparr>framePrepared := False, capturedFrameCount := 5,
              trace := [DrawShaderForPassIndex 1, Fwrite 8294400 1 11]\<rparr>)"
    by (simp add: held_session_def)
  from backBuffer_lifetime [of held_session 0 sample_env] run cap bb
  show ?thesis by simp
qed

text \<open>
  The claim as the spec states it fails in the capturing state: after a start in which
  every step succeeds the session holds the backbuffer, and still holds it after the
  first frame.
\<close>

theorem backBuffer_held_counterexample:
  "(case StartCapture sample_env sample_session of
      Inl f \<Rightarrow> None
    | Inr s \<Rightarrow> if isCapturing s then backBuffer s else None) = Some 1
   \<and> (case StartCapture sample_env sample_session of
        Inl f \<Rightarrow> None
      | Inr s \<Rightarrow>
          (case CaptureFrame sample_env s of
             Inl f \<Rightarrow> None
           | Inr s' \<Rightarrow> if isCapturing s' then backBuffer s' else None)) = Some 1"
  by (simp add: StartCapture_def open_pipes_def GetFFmpegCommand_def video_profile_def
        CaptureFrame_def outputPipe_def MultiPassEnabled_def Let_def emit_def
        sample_env_def sample_session_def sample_settings_def)

end
